theory Spec2Isabelle
  imports Complex_Main "HOL-Library.Multiset"
begin

section \<open>Data model\<close>

text \<open>
  The application is a browser front end (React components) over a hosted relational
  store.  The components are modelled as functions on their React state and on an explicit
  store value.  Quantities (\<open>stock_quantity\<close>, \<open>quantity\<close>: SQL \<open>integer\<close>, read with
  \<open>parseInt\<close>) are \<open>int\<close>.  Money (\<open>price\<close>, \<open>amount\<close>, \<open>total_amount\<close>: SQL
  \<open>numeric\<close>, JavaScript numbers) is modelled by exact rationals: the finite values of a
  JavaScript number, without the rounding of binary floating point and without \<open>NaN\<close>.
  Dates are day numbers; \<open>setDate(getDate() + n)\<close> is the addition of \<open>n\<close> days.
\<close>

type_synonym money = rat

text \<open>\<open>interface Product\<close> and \<open>interface CartItem extends Product\<close> of Sales.tsx.\<close>

record product =
  p_id :: string
  p_name :: string
  p_code :: string
  p_price :: money
  p_stock_quantity :: int

record cart_item = product +
  quantity :: int

text \<open>\<open>interface Client\<close> of Sales.tsx.\<close>

record client =
  c_id :: string
  c_name :: string

section \<open>Cart builder (Sales.tsx)\<close>

text \<open>The object spread \<open>{ ...product, quantity: 1 }\<close>.\<close>

definition with_quantity :: "product \<Rightarrow> int \<Rightarrow> cart_item" where
  "with_quantity product q =
     \<lparr>p_id = p_id product, p_name = p_name product, p_code = p_code product,
      p_price = p_price product, p_stock_quantity = p_stock_quantity product,
      quantity = q\<rparr>"

text \<open>
  \<open>addToCart\<close>: the updater passed to \<open>setCart\<close>, as a function of the current cart.
  \<open>Array.prototype.find\<close> returns the first match, as \<^const>\<open>find\<close> does.
\<close>

definition addToCart :: "product \<Rightarrow> cart_item list \<Rightarrow> cart_item list" where
  "addToCart product current =
     (case find (\<lambda>item. p_id item = p_id product) current of
        Some existing \<Rightarrow>
          if quantity existing \<ge> p_stock_quantity product then current
          else map (\<lambda>item. if p_id item = p_id product
                             then item\<lparr>quantity := quantity item + 1\<rparr> else item) current
      | None \<Rightarrow> current @ [with_quantity product 1])"

definition removeFromCart :: "string \<Rightarrow> cart_item list \<Rightarrow> cart_item list" where
  "removeFromCart productId current = filter (\<lambda>item. p_id item \<noteq> productId) current"

text \<open>The body of the \<open>map\<close> callback of \<open>updateQuantity\<close>, with its two early returns.\<close>

definition updateItem :: "string \<Rightarrow> int \<Rightarrow> cart_item \<Rightarrow> cart_item" where
  "updateItem productId delta item =
     (if p_id item = productId then
        (let newQuantity = quantity item + delta in
         if newQuantity < 1 then item
         else if newQuantity > p_stock_quantity item then item
         else item\<lparr>quantity := newQuantity\<rparr>)
      else item)"

definition updateQuantity :: "string \<Rightarrow> int \<Rightarrow> cart_item list \<Rightarrow> cart_item list" where
  "updateQuantity productId delta current = map (updateItem productId delta) current"

text \<open>\<open>cart.reduce((sum, item) => sum + (item.price * item.quantity), 0)\<close>.\<close>

definition total :: "cart_item list \<Rightarrow> money" where
  "total cart = foldl (\<lambda>sum item. sum + p_price item * of_int (quantity item)) 0 cart"


text \<open>
  \<open>Math.max(0, amountPaid - total)\<close> when the sale is paid in cash with money, else 0.
\<close>

datatype payment_type = Cash | Installment

definition change :: "payment_type \<Rightarrow> string \<Rightarrow> money \<Rightarrow> money \<Rightarrow> money" where
  "change ptype pmethod paid tot =
     (if pmethod = ''money'' \<and> ptype = Cash then max 0 (paid - tot) else 0)"

section \<open>The store\<close>

text \<open>
  The tables of schema.sql and of the installments and cash-flow migration, with the
  columns the components read or write.  A table is the list of its rows in insertion
  order.
\<close>

datatype installment_status = Pending | Paid | Overdue

datatype register_status = Register_open | Register_closed

datatype transaction_type =
  Sale | Installment_payment | Opening | Closing | Withdrawal | Deposit

record sale_row =
  s_id :: string
  s_client_id :: string
  s_user_id :: string
  s_total_amount :: money
  s_payment_method :: string

record sale_item_row =
  si_sale_id :: string
  si_product_id :: string
  si_quantity :: int
  si_unit_price :: money

record installment_row =
  i_sale_id :: string
  i_installment_number :: nat
  i_due_date :: int
  i_amount :: money
  i_status :: installment_status

record cash_register_row =
  r_id :: string
  r_user_id :: string
  r_initial_balance :: money
  r_status :: register_status
  r_final_balance :: "money option"
  r_closed_at :: "int option"

record cash_transaction_row =
  t_register_id :: string
  t_sale_id :: "string option"
  t_installment_id :: "string option"
  t_description :: string
  t_amount :: money
  t_type :: transaction_type
  t_created_at :: int

record purchase_row =
  pu_product_id :: string
  pu_quantity :: int
  pu_purchase_date :: int
  pu_file_url :: "string option"

record store =
  sales_table :: "sale_row list"
  sale_items_table :: "sale_item_row list"
  installments_table :: "installment_row list"
  products_table :: "product list"
  cash_registers_table :: "cash_register_row list"
  cash_transactions_table :: "cash_transaction_row list"
  purchases_table :: "purchase_row list"

text \<open>
  What the components do not control: the logged-in user, the answers of the store, the
  identifier the store generates for an inserted row, the clock, and whether the receipt
  renderer throws.  A request the store rejects (authorization, constraint, network) comes
  back as an error object with a message, and has no effect on the store.
\<close>

datatype request =
  InsertSale | InsertSaleItems | InsertInstallments
  | SelectStock string | UpdateStock string
  | SelectOpenRegister | InsertCashTransaction
  | InsertRegister | UpdateRegister | SelectTransactions
  | InsertPurchase | UploadFile

record env =
  user_id :: string
  rejects :: "request \<Rightarrow> string option"
  new_id :: string
  today :: int
  clock :: int
  receipt_error :: "string option"

text \<open>
  \<open>.single()\<close>: the row when the query returns exactly one, otherwise no data (and an
  error that the callers below do not look at).
\<close>

fun single :: "'a list \<Rightarrow> 'a option" where
  "single [x] = Some x"
| "single _ = None"

text \<open>Template literals print numbers in decimal.\<close>

definition digit_char :: "nat \<Rightarrow> char" where
  "digit_char d = char_of (48 + d)"

fun string_of_nat :: "nat \<Rightarrow> string" where
  "string_of_nat n =
     (if n < 10 then [digit_char n] else string_of_nat (n div 10) @ [digit_char (n mod 10)])"

declare string_of_nat.simps [simp del]

section \<open>Checkout orchestrator (Sales.tsx, handleCheckout)\<close>

record sales_state =
  cart :: "cart_item list"
  clients :: "client list"
  selectedClient :: string
  paymentType :: payment_type
  paymentMethod :: string
  installments :: nat
  amountPaid :: money

text \<open>Step 1: the row inserted into \<open>sales\<close>, read back with the generated id.\<close>

definition new_sale :: "env \<Rightarrow> sales_state \<Rightarrow> sale_row" where
  "new_sale e s =
     \<lparr>s_id = new_id e, s_client_id = selectedClient s, s_user_id = user_id e,
      s_total_amount = total (cart s),
      s_payment_method =
        (if paymentType s = Installment
         then ''credit_card_'' @ string_of_nat (installments s) @ ''x''
         else paymentMethod s)\<rparr>"

text \<open>Step 2: one line item per cart entry.\<close>

definition saleItems :: "sale_row \<Rightarrow> cart_item list \<Rightarrow> sale_item_row list" where
  "saleItems sale c =
     map (\<lambda>item. \<lparr>si_sale_id = s_id sale, si_product_id = p_id item,
                   si_quantity = quantity item, si_unit_price = p_price item\<rparr>) c"

text \<open>
  Step 3: \<open>Array.from({ length: installments }).map((_, index) => ...)\<close>; the amount is
  computed once, before the loop.
\<close>

definition installmentData :: "env \<Rightarrow> sale_row \<Rightarrow> money \<Rightarrow> nat \<Rightarrow> installment_row list" where
  "installmentData e sale tot n =
     (let installmentAmount = tot / of_nat n in
      map (\<lambda>index. \<lparr>i_sale_id = s_id sale, i_installment_number = index + 1,
                     i_due_date = today e + 30 * (int index + 1),
                     i_amount = installmentAmount, i_status = Pending\<rparr>) [0..<n])"

text \<open>
  Step 4, one iteration of \<open>for (const item of cart)\<close>: read the product's current stock,
  and when a row came back write the difference.  Neither answer is checked for an error.
\<close>

definition set_stock :: "string \<Rightarrow> int \<Rightarrow> store \<Rightarrow> store" where
  "set_stock pid v db =
     db\<lparr>products_table :=
          map (\<lambda>p. if p_id p = pid then p\<lparr>p_stock_quantity := v\<rparr> else p) (products_table db)\<rparr>"

definition select_stock :: "env \<Rightarrow> string \<Rightarrow> store \<Rightarrow> int option" where
  "select_stock e pid db =
     (case rejects e (SelectStock pid) of
        Some msg \<Rightarrow> None
      | None \<Rightarrow> map_option p_stock_quantity
                 (single (filter (\<lambda>p. p_id p = pid) (products_table db))))"

definition decrement_stock :: "env \<Rightarrow> store \<Rightarrow> cart_item \<Rightarrow> store" where
  "decrement_stock e db item =
     (case select_stock e (p_id item) db of
        None \<Rightarrow> db
      | Some current \<Rightarrow>
          (case rejects e (UpdateStock (p_id item)) of
             Some msg \<Rightarrow> db
           | None \<Rightarrow> set_stock (p_id item) (current - quantity item) db))"

definition update_stock :: "env \<Rightarrow> cart_item list \<Rightarrow> store \<Rightarrow> store" where
  "update_stock e c db = foldl (decrement_stock e) db c"

text \<open>
  Step 6: the lookup of the user's open register and the ledger entry.
  \<open>clients.find(c => c.id === selectedClient)?.name || 'Cliente'\<close>: an empty name is falsy.
\<close>

definition open_register :: "env \<Rightarrow> store \<Rightarrow> cash_register_row option" where
  "open_register e db =
     (case rejects e SelectOpenRegister of
        Some msg \<Rightarrow> None
      | None \<Rightarrow> single (filter (\<lambda>r. r_user_id r = user_id e \<and> r_status r = Register_open)
                          (cash_registers_table db)))"

definition sale_client_name :: "sales_state \<Rightarrow> string" where
  "sale_client_name s =
     (case find (\<lambda>c. c_id c = selectedClient s) (clients s) of
        None \<Rightarrow> ''Cliente''
      | Some c \<Rightarrow> if c_name c = [] then ''Cliente'' else c_name c)"

definition sale_transaction :: "env \<Rightarrow> sales_state \<Rightarrow> sale_row \<Rightarrow> cash_register_row
    \<Rightarrow> cash_transaction_row" where
  "sale_transaction e s sale register =
     \<lparr>t_register_id = r_id register, t_sale_id = Some (s_id sale), t_installment_id = None,
      t_description = ''Venda #'' @ take 8 (s_id sale) @ '' - '' @ sale_client_name s,
      t_amount =
        (if paymentMethod s = ''money''
         then (if amountPaid s > total (cart s) then total (cart s) else amountPaid s)
         else total (cart s)),
      t_type = Sale, t_created_at = clock e\<rparr>"

definition register_in_cash_flow :: "env \<Rightarrow> sales_state \<Rightarrow> sale_row \<Rightarrow> store \<Rightarrow> store" where
  "register_in_cash_flow e s sale db =
     (if paymentType s = Cash then
        (case open_register e db of
           None \<Rightarrow> db
         | Some register \<Rightarrow>
             (case rejects e InsertCashTransaction of
                Some msg \<Rightarrow> db
              | None \<Rightarrow> db\<lparr>cash_transactions_table :=
                             cash_transactions_table db @ [sale_transaction e s sale register]\<rparr>))
      else db)"

text \<open>The state after a successful sale (\<open>// Reset\<close>).\<close>

definition reset :: "sales_state \<Rightarrow> sales_state" where
  "reset s = s\<lparr>cart := [], selectedClient := [], amountPaid := 0,
               paymentType := Cash, installments := 2\<rparr>"

text \<open>The \<open>catch\<close> block: one alert for whatever was thrown inside \<open>try\<close>.\<close>

definition error_alert :: "string \<Rightarrow> string" where
  "error_alert message = ''Erro ao processar venda: '' @ message"

text \<open>
  Steps 3 to 6, after the sale and its items are written.  The result is the alert shown,
  the component's state and the store.
\<close>

definition checkout_after_items :: "env \<Rightarrow> sales_state \<Rightarrow> sale_row \<Rightarrow> store
    \<Rightarrow> string \<times> sales_state \<times> store" where
  "checkout_after_items e s sale db =
     (let db4 = update_stock e (cart s) db in
      case receipt_error e of
        Some msg \<Rightarrow> (error_alert msg, s, db4)
      | None \<Rightarrow> (''Venda realizada com sucesso!'', reset s,
                  register_in_cash_flow e s sale db4))"

definition checkout_installments :: "env \<Rightarrow> sales_state \<Rightarrow> sale_row \<Rightarrow> store
    \<Rightarrow> string \<times> sales_state \<times> store" where
  "checkout_installments e s sale db =
     (if paymentType s = Installment then
        (case rejects e InsertInstallments of
           Some msg \<Rightarrow> (error_alert msg, s, db)
         | None \<Rightarrow>
             checkout_after_items e s sale
               (db\<lparr>installments_table := installments_table db
                      @ installmentData e sale (total (cart s)) (installments s)\<rparr>))
      else checkout_after_items e s sale db)"

definition handleCheckout :: "env \<Rightarrow> sales_state \<Rightarrow> store \<Rightarrow> string \<times> sales_state \<times> store" where
  "handleCheckout e s db =
     (if selectedClient s = [] then (''Selecione um cliente'', s, db)
      else if cart s = [] then (''Carrinho vazio'', s, db)
      else if paymentType s = Cash \<and> paymentMethod s = ''money'' \<and> amountPaid s < total (cart s)
        then (''Valor pago insuficiente'', s, db)
      else
        (case rejects e InsertSale of
           Some msg \<Rightarrow> (error_alert msg, s, db)
         | None \<Rightarrow>
             (let sale = new_sale e s;
                  db1 = db\<lparr>sales_table := sales_table db @ [sale]\<rparr>
              in case rejects e InsertSaleItems of
                   Some msg \<Rightarrow> (error_alert msg, s, db1)
                 | None \<Rightarrow>
                     checkout_installments e s sale
                       (db1\<lparr>sale_items_table := sale_items_table db1
                              @ saleItems sale (cart s)\<rparr>))))"


section \<open>Cash register ledger (CashFlow.tsx)\<close>

record cashflow_state =
  register :: "cash_register_row option"
  transactions :: "cash_transaction_row list"

text \<open>
  \<open>fetchTransactions\<close>: the rows of one register, latest first; on an error the state
  stays as it is.
\<close>

definition fetchTransactions :: "env \<Rightarrow> string \<Rightarrow> cashflow_state \<Rightarrow> store \<Rightarrow> cashflow_state" where
  "fetchTransactions e registerId st db =
     (case rejects e SelectTransactions of
        Some msg \<Rightarrow> st
      | None \<Rightarrow>
          st\<lparr>transactions :=
               rev (sort_key t_created_at
                     (filter (\<lambda>t. t_register_id t = registerId) (cash_transactions_table db)))\<rparr>)"

text \<open>\<open>transactions.reduce((acc, curr) => ..., 0)\<close>.\<close>

definition calculateBalance :: "cash_transaction_row list \<Rightarrow> money" where
  "calculateBalance ts =
     foldl (\<lambda>acc curr. if t_type curr = Withdrawal then acc - t_amount curr
                        else acc + t_amount curr) 0 ts"

text \<open>
  \<open>handleOpenRegister\<close>, for a logged-in user; \<open>initial\<close> is \<open>parseFloat(initialBalance)\<close>.
  The result is the alert shown (if any), the component's state and the store.
\<close>

definition handleOpenRegister :: "env \<Rightarrow> money \<Rightarrow> cashflow_state \<Rightarrow> store
    \<Rightarrow> string option \<times> cashflow_state \<times> store" where
  "handleOpenRegister e initial st db =
     (case rejects e InsertRegister of
        Some msg \<Rightarrow> (Some ''Erro ao abrir caixa'', st, db)
      | None \<Rightarrow>
          (let data = \<lparr>r_id = new_id e, r_user_id = user_id e, r_initial_balance = initial,
                       r_status = Register_open, r_final_balance = None, r_closed_at = None\<rparr>;
               db1 = db\<lparr>cash_registers_table := cash_registers_table db @ [data]\<rparr>;
               db2 = (case rejects e InsertCashTransaction of
                        Some msg \<Rightarrow> db1
                      | None \<Rightarrow>
                          db1\<lparr>cash_transactions_table := cash_transactions_table db1 @
                                [\<lparr>t_register_id = r_id data, t_sale_id = None,
                                  t_installment_id = None,
                                  t_description = ''Abertura de Caixa'', t_amount = initial,
                                  t_type = Opening, t_created_at = clock e\<rparr>]\<rparr>)
           in (None, fetchTransactions e (r_id data) (st\<lparr>register := Some data\<rparr>) db2, db2)))"

text \<open>
  \<open>handleCloseRegister\<close>; \<open>confirmed\<close> is the answer of \<open>window.confirm\<close>.  Both calls of
  \<open>calculateBalance()\<close> read the \<open>transactions\<close> of the same render.
\<close>

definition close_register_row :: "string \<Rightarrow> int \<Rightarrow> money \<Rightarrow> cash_register_row \<Rightarrow> cash_register_row" where
  "close_register_row rid closedAt bal r =
     (if r_id r = rid
      then r\<lparr>r_status := Register_closed, r_closed_at := Some closedAt, r_final_balance := Some bal\<rparr>
      else r)"

definition closing_transaction :: "env \<Rightarrow> string \<Rightarrow> money \<Rightarrow> cash_transaction_row" where
  "closing_transaction e rid bal =
     \<lparr>t_register_id = rid, t_sale_id = None, t_installment_id = None,
      t_description = ''Fechamento de Caixa'', t_amount = bal,
      t_type = Closing, t_created_at = clock e\<rparr>"

definition handleCloseRegister :: "env \<Rightarrow> bool \<Rightarrow> cashflow_state \<Rightarrow> store
    \<Rightarrow> string option \<times> cashflow_state \<times> store" where
  "handleCloseRegister e confirmed st db =
     (case register st of
        None \<Rightarrow> (None, st, db)
      | Some reg \<Rightarrow>
          if \<not> confirmed then (None, st, db)
          else
            (case rejects e UpdateRegister of
               Some msg \<Rightarrow> (Some ''Erro ao fechar caixa'', st, db)
             | None \<Rightarrow>
                 (let db1 = db\<lparr>cash_registers_table :=
                                 map (close_register_row (r_id reg) (clock e)
                                        (calculateBalance (transactions st)))
                                     (cash_registers_table db)\<rparr>;
                      db2 = (case rejects e InsertCashTransaction of
                               Some msg \<Rightarrow> db1
                             | None \<Rightarrow>
                                 db1\<lparr>cash_transactions_table := cash_transactions_table db1 @
                                       [closing_transaction e (r_id reg)
                                          (calculateBalance (transactions st))]\<rparr>)
                  in (None, st\<lparr>register := None, transactions := []\<rparr>, db2))))"

section \<open>Stock adjustment (StockModal.tsx) and purchases (Stock.tsx, PurchasesView)\<close>

datatype stock_operation = Add | Remove

text \<open>The message of the error thrown when the new quantity is negative (UTF-8).\<close>

definition negative_stock_message :: string where
  "negative_stock_message =
     ''O estoque n'' @ [CHR 0xC3, CHR 0xA3] @ ''o pode ficar negativo''"

text \<open>
  \<open>handleSubmit\<close> of StockModal: \<open>product\<close> is the component's prop, \<open>quantity\<close> and
  \<open>type\<close> its state.  The result is the error shown (if any) and the store.
\<close>

definition StockModal_handleSubmit :: "env \<Rightarrow> product \<Rightarrow> stock_operation \<Rightarrow> int \<Rightarrow> store
    \<Rightarrow> string option \<times> store" where
  "StockModal_handleSubmit e product type qty db =
     (let newQuantity = (if type = Add then p_stock_quantity product + qty
                         else p_stock_quantity product - qty)
      in if newQuantity < 0 then (Some negative_stock_message, db)
         else (case rejects e (UpdateStock (p_id product)) of
                 Some msg \<Rightarrow> (Some msg, db)
               | None \<Rightarrow> (None, set_stock (p_id product) newQuantity db)))"

text \<open>
  \<open>handleSubmit\<close> of PurchasesView.  \<open>np_file\<close> is the attached document, given by the
  public URL the file storage answers for it.  The result tells whether the purchase was
  registered (the success alert) or the error alert was shown.
\<close>

record new_purchase =
  np_product_id :: string
  np_quantity :: int
  np_purchase_date :: int
  np_file :: "string option"

definition Purchases_handleSubmit :: "env \<Rightarrow> product list \<Rightarrow> new_purchase \<Rightarrow> store
    \<Rightarrow> bool \<times> store" where
  "Purchases_handleSubmit e products newPurchase db =
     (if np_file newPurchase \<noteq> None \<and> rejects e UploadFile \<noteq> None then (False, db)
      else
        (case rejects e InsertPurchase of
           Some msg \<Rightarrow> (False, db)
         | None \<Rightarrow>
             (let db1 = db\<lparr>purchases_table := purchases_table db @
                            [\<lparr>pu_product_id = np_product_id newPurchase,
                              pu_quantity = np_quantity newPurchase,
                              pu_purchase_date = np_purchase_date newPurchase,
                              pu_file_url = np_file newPurchase\<rparr>]\<rparr>
              in case find (\<lambda>p. p_id p = np_product_id newPurchase) products of
                   None \<Rightarrow> (True, db1)
                 | Some product \<Rightarrow>
                     (case rejects e (UpdateStock (np_product_id newPurchase)) of
                        Some msg \<Rightarrow> (False, db1)
                      | None \<Rightarrow>
                          (True, set_stock (np_product_id newPurchase)
                                   (p_stock_quantity product + np_quantity newPurchase) db1)))))"

section \<open>Installment tracker (Installments.tsx, groupInstallments)\<close>

text \<open>
  \<open>interface Installment\<close>, with the client's \<open>id\<close> and \<open>name\<close> that \<open>fetchInstallments\<close>
  selects through the sale, and \<open>interface ClientGroup\<close>.
\<close>

record installment =
  inst_id :: string
  inst_sale_id :: string
  inst_installment_number :: nat
  inst_due_date :: int
  inst_amount :: money
  inst_status :: installment_status
  inst_client :: client

record client_group =
  g_clientId :: string
  g_clientName :: string
  g_installments :: "installment list"
  g_totalPending :: money
  g_totalOverdue :: money

datatype status_filter = All_statuses | Only installment_status

datatype view_mode = View_all | View_today

text \<open>\<open>toLowerCase\<close> on ASCII letters, and \<open>String.prototype.includes\<close>.\<close>

definition lower_char :: "char \<Rightarrow> char" where
  "lower_char c =
     (let n = (of_char c :: nat) in if 65 \<le> n \<and> n \<le> 90 then char_of (n + 32) else c)"

definition toLowerCase :: "string \<Rightarrow> string" where
  "toLowerCase s = map lower_char s"

fun includes_str :: "string \<Rightarrow> string \<Rightarrow> bool" where
  "includes_str [] t = (t = [])"
| "includes_str (c # s) t = (take (length t) (c # s) = t \<or> includes_str s t)"

text \<open>The filter of \<open>groupInstallments\<close>: search term, status and due date.\<close>

definition matchesFilter :: "env \<Rightarrow> string \<Rightarrow> status_filter \<Rightarrow> view_mode \<Rightarrow> installment \<Rightarrow> bool" where
  "matchesFilter e searchTerm statusFilter viewMode inst =
     (let matchesSearch = includes_str (toLowerCase (c_name (inst_client inst))) (toLowerCase searchTerm);
          matchesStatus = (statusFilter = All_statuses \<or> statusFilter = Only (inst_status inst));
          matchesDate = (if viewMode = View_today then inst_due_date inst = today e else True)
      in matchesSearch \<and> matchesStatus \<and> matchesDate)"

text \<open>
  \<open>groups\<close> is an object used as a dictionary: an association list in insertion order
  with one entry per key.  The key is \<open>inst.sale.client.name\<close>.  (Names that are
  properties of \<open>Object.prototype\<close>, and the numeric-keys-first order of
  \<open>Object.values\<close>, which the sort that follows overrides, are outside the model.)
\<close>

definition add_to_group :: "installment \<Rightarrow> client_group \<Rightarrow> client_group" where
  "add_to_group inst g =
     (let g1 = g\<lparr>g_installments := g_installments g @ [inst]\<rparr>
      in if inst_status inst = Pending
           then g1\<lparr>g_totalPending := g_totalPending g1 + inst_amount inst\<rparr>
         else if inst_status inst = Overdue
           then g1\<lparr>g_totalOverdue := g_totalOverdue g1 + inst_amount inst\<rparr>
         else g1)"

definition empty_group :: "string \<Rightarrow> string \<Rightarrow> client_group" where
  "empty_group key name =
     \<lparr>g_clientId = key, g_clientName = name, g_installments = [],
      g_totalPending = 0, g_totalOverdue = 0\<rparr>"

fun add_to_groups :: "string \<Rightarrow> installment \<Rightarrow> (string \<times> client_group) list
    \<Rightarrow> (string \<times> client_group) list" where
  "add_to_groups key inst [] =
     [(key, add_to_group inst (empty_group key (c_name (inst_client inst))))]"
| "add_to_groups key inst ((k, g) # rest) =
     (if k = key then (k, add_to_group inst g) # rest
      else (k, g) # add_to_groups key inst rest)"

definition group_step :: "env \<Rightarrow> string \<Rightarrow> status_filter \<Rightarrow> view_mode
    \<Rightarrow> (string \<times> client_group) list \<Rightarrow> installment \<Rightarrow> (string \<times> client_group) list" where
  "group_step e searchTerm statusFilter viewMode groups inst =
     (if matchesFilter e searchTerm statusFilter viewMode inst
      then (let clientId = c_name (inst_client inst) in add_to_groups clientId inst groups)
      else groups)"

text \<open>
  \<open>Array.prototype.sort\<close> with a comparator (stable); \<open>localeCompare\<close> depends on the
  browser's locale and is a parameter.
\<close>

fun insert_sorted :: "('a \<Rightarrow> 'a \<Rightarrow> int) \<Rightarrow> 'a \<Rightarrow> 'a list \<Rightarrow> 'a list" where
  "insert_sorted cmp x [] = [x]"
| "insert_sorted cmp x (y # ys) =
     (if cmp x y \<le> 0 then x # y # ys else y # insert_sorted cmp x ys)"

definition sort_with :: "('a \<Rightarrow> 'a \<Rightarrow> int) \<Rightarrow> 'a list \<Rightarrow> 'a list" where
  "sort_with cmp xs = foldr (insert_sorted cmp) xs []"

definition groupInstallments :: "env \<Rightarrow> (string \<Rightarrow> string \<Rightarrow> int) \<Rightarrow> installment list
    \<Rightarrow> string \<Rightarrow> status_filter \<Rightarrow> view_mode \<Rightarrow> client_group list" where
  "groupInstallments e localeCompare insts searchTerm statusFilter viewMode =
     (let groups = foldl (group_step e searchTerm statusFilter viewMode) [] insts
      in sort_with (\<lambda>a b. localeCompare (g_clientName a) (g_clientName b)) (map snd groups))"


section \<open>Auxiliary definitions and scenarios\<close>


text \<open>
  A shop with two products and one open register, a store that accepts every request
  (\<open>accepting_env\<close>) and one that rejects exactly one kind of request (\<open>rejecting_env\<close>).
\<close>

definition product_a :: product where
  "product_a = \<lparr>p_id = ''prod-a'', p_name = ''Produto A'', p_code = ''0001'',
                 p_price = 10, p_stock_quantity = 2\<rparr>"

definition product_b :: product where
  "product_b = \<lparr>p_id = ''prod-b'', p_name = ''Produto B'', p_code = ''0002'',
                 p_price = 5, p_stock_quantity = 3\<rparr>"

definition accepting_env :: env where
  "accepting_env = \<lparr>user_id = ''user-1'', rejects = (\<lambda>q. None), new_id = ''0a1b2c3d-sale'',
                     today = 0, clock = 1000, receipt_error = None\<rparr>"

definition rejecting_env :: "request \<Rightarrow> string \<Rightarrow> env" where
  "rejecting_env q msg = accepting_env\<lparr>rejects := (\<lambda>r. if r = q then Some msg else None)\<rparr>"

definition register_1 :: cash_register_row where
  "register_1 = \<lparr>r_id = ''reg-1'', r_user_id = ''user-1'', r_initial_balance = 100,
                  r_status = Register_open, r_final_balance = None, r_closed_at = None\<rparr>"

definition empty_store :: store where
  "empty_store = \<lparr>sales_table = [], sale_items_table = [], installments_table = [],
                   products_table = [], cash_registers_table = [],
                   cash_transactions_table = [], purchases_table = []\<rparr>"

definition shop_store :: store where
  "shop_store = \<lparr>sales_table = [], sale_items_table = [], installments_table = [],
                  products_table = [product_a, product_b],
                  cash_registers_table = [register_1],
                  cash_transactions_table = [], purchases_table = []\<rparr>"


text \<open>A cart of 2 \<times> A at 10.00 and 1 \<times> B at 5.00, sold in three installments.\<close>

definition installment_sale :: sales_state where
  "installment_sale = \<lparr>cart = [with_quantity product_a 2, with_quantity product_b 1],
                        clients = [\<lparr>c_id = ''client-1'', c_name = ''Ana''\<rparr>],
                        selectedClient = ''client-1'', paymentType = Installment,
                        paymentMethod = ''pix'', installments = 3, amountPaid = 0\<rparr>"

text \<open>A cart of total 15.00 paid in cash with money; \<open>paid\<close> is the amount tendered.\<close>

definition money_sale :: "money \<Rightarrow> sales_state" where
  "money_sale paid = \<lparr>cart = [with_quantity product_a 1, with_quantity product_b 1],
                       clients = [\<lparr>c_id = ''client-1'', c_name = ''Ana''\<rparr>],
                       selectedClient = ''client-1'', paymentType = Cash,
                       paymentMethod = ''money'', installments = 2, amountPaid = paid\<rparr>"

text \<open>
  A cart built by clicking product A twice while the product list showed a stock of 2.
\<close>

definition stale_cart_sale :: sales_state where
  "stale_cart_sale = \<lparr>cart = addToCart product_a (addToCart product_a []),
                       clients = [\<lparr>c_id = ''client-1'', c_name = ''Ana''\<rparr>],
                       selectedClient = ''client-1'', paymentType = Cash,
                       paymentMethod = ''pix'', installments = 2, amountPaid = 0\<rparr>"

text \<open>A sale of 50.00 and a withdrawal of 20.00 recorded on register \<open>reg-1\<close>.\<close>

definition ledger_rows :: "cash_transaction_row list" where
  "ledger_rows =
     [\<lparr>t_register_id = ''reg-1'', t_sale_id = Some ''0a1b2c3d-sale'', t_installment_id = None,
       t_description = ''Venda #0a1b2c3d - Ana'', t_amount = 50, t_type = Sale,
       t_created_at = 2000\<rparr>,
      \<lparr>t_register_id = ''reg-1'', t_sale_id = None, t_installment_id = None,
       t_description = ''Sangria'', t_amount = 20, t_type = Withdrawal,
       t_created_at = 3000\<rparr>]"

text \<open>
  The cash-flow page showing register \<open>reg-1\<close> with its opening of 100.00 and the two
  rows above, latest first.
\<close>

definition open_ledger :: cashflow_state where
  "open_ledger =
     \<lparr>register = Some register_1,
      transactions = rev ledger_rows @
        [\<lparr>t_register_id = ''reg-1'', t_sale_id = None, t_installment_id = None,
          t_description = ''Abertura de Caixa'', t_amount = 100, t_type = Opening,
          t_created_at = 1000\<rparr>]\<rparr>"

text \<open>
  The group that the installments \<open>ms\<close> of the clients named \<open>k\<close> add up to:
  the installments in their order, and the sums of the pending and of the overdue ones.
\<close>

definition expected_group :: "installment list \<Rightarrow> string \<Rightarrow> client_group" where
  "expected_group ms k =
     \<lparr>g_clientId = k, g_clientName = k,
      g_installments = filter (\<lambda>i. c_name (inst_client i) = k) ms,
      g_totalPending =
        (\<Sum>i\<leftarrow>filter (\<lambda>i. c_name (inst_client i) = k \<and> inst_status i = Pending) ms. inst_amount i),
      g_totalOverdue =
        (\<Sum>i\<leftarrow>filter (\<lambda>i. c_name (inst_client i) = k \<and> inst_status i = Overdue) ms. inst_amount i)\<rparr>"

text \<open>
  A comparison of strings by character code, standing for \<open>localeCompare\<close> in the
  scenario below.
\<close>

fun compare_strings :: "string \<Rightarrow> string \<Rightarrow> int" where
  "compare_strings [] [] = 0"
| "compare_strings [] (y # ys) = - 1"
| "compare_strings (x # xs) [] = 1"
| "compare_strings (x # xs) (y # ys) =
     (if (of_char x :: nat) < of_char y then - 1
      else if (of_char y :: nat) < of_char x then 1
      else compare_strings xs ys)"

text \<open>
  Installments of two clients, \<open>client-1\<close> and \<open>client-2\<close>, who are both named Ana.
\<close>

definition ana_first :: installment where
  "ana_first = \<lparr>inst_id = ''inst-1'', inst_sale_id = ''sale-1'', inst_installment_number = 1,
                 inst_due_date = 30, inst_amount = 10, inst_status = Pending,
                 inst_client = \<lparr>c_id = ''client-1'', c_name = ''Ana''\<rparr>\<rparr>"

definition ana_second :: installment where
  "ana_second = \<lparr>inst_id = ''inst-2'', inst_sale_id = ''sale-2'', inst_installment_number = 1,
                  inst_due_date = 30, inst_amount = 20, inst_status = Pending,
                  inst_client = \<lparr>c_id = ''client-2'', c_name = ''Ana''\<rparr>\<rparr>"

definition ana_second_late :: installment where
  "ana_second_late = \<lparr>inst_id = ''inst-3'', inst_sale_id = ''sale-3'', inst_installment_number = 1,
                  inst_due_date = 5, inst_amount = 5, inst_status = Overdue,
                  inst_client = \<lparr>c_id = ''client-2'', c_name = ''Ana''\<rparr>\<rparr>"

lemmas scenario_defs = product_a_def product_b_def accepting_env_def rejecting_env_def
  register_1_def shop_store_def installment_sale_def money_sale_def with_quantity_def total_def

section \<open>Frame lemmas of the checkout steps\<close>

lemma decrement_stock_frame:
  "sales_table (decrement_stock e db item) = sales_table db"
  "sale_items_table (decrement_stock e db item) = sale_items_table db"
  "installments_table (decrement_stock e db item) = installments_table db"
  "cash_registers_table (decrement_stock e db item) = cash_registers_table db"
  "cash_transactions_table (decrement_stock e db item) = cash_transactions_table db"
  "purchases_table (decrement_stock e db item) = purchases_table db"
  by (simp_all add: decrement_stock_def set_stock_def split: option.splits)

lemma update_stock_frame:
  "sales_table (update_stock e c db) = sales_table db"
  "sale_items_table (update_stock e c db) = sale_items_table db"
  "installments_table (update_stock e c db) = installments_table db"
  "cash_registers_table (update_stock e c db) = cash_registers_table db"
  "cash_transactions_table (update_stock e c db) = cash_transactions_table db"
  "purchases_table (update_stock e c db) = purchases_table db"
  unfolding update_stock_def
  by (induction c arbitrary: db; simp add: decrement_stock_frame)+

lemma decrement_stock_products_cong:
  "products_table db1 = products_table db2 \<Longrightarrow>
   products_table (decrement_stock e db1 item) = products_table (decrement_stock e db2 item)"
  by (simp add: decrement_stock_def select_stock_def set_stock_def split: option.splits)

lemma update_stock_products_cong:
  "products_table db1 = products_table db2 \<Longrightarrow>
   products_table (update_stock e c db1) = products_table (update_stock e c db2)"
  unfolding update_stock_def
proof (induction c arbitrary: db1 db2)
  case Nil
  then show ?case by simp
next
  case (Cons item c)
  show ?case
    by (simp, rule Cons.IH, rule decrement_stock_products_cong, rule Cons.prems)
qed

lemma register_in_cash_flow_frame:
  "sales_table (register_in_cash_flow e s sale db) = sales_table db"
  "sale_items_table (register_in_cash_flow e s sale db) = sale_items_table db"
  "installments_table (register_in_cash_flow e s sale db) = installments_table db"
  "products_table (register_in_cash_flow e s sale db) = products_table db"
  "cash_registers_table (register_in_cash_flow e s sale db) = cash_registers_table db"
  "purchases_table (register_in_cash_flow e s sale db) = purchases_table db"
  by (simp_all add: register_in_cash_flow_def split: option.splits)

lemma checkout_after_items_frame:
  "sales_table (snd (snd (checkout_after_items e s sale db))) = sales_table db"
  "sale_items_table (snd (snd (checkout_after_items e s sale db))) = sale_items_table db"
  "installments_table (snd (snd (checkout_after_items e s sale db))) = installments_table db"
  "cash_registers_table (snd (snd (checkout_after_items e s sale db))) = cash_registers_table db"
  "products_table (snd (snd (checkout_after_items e s sale db))) =
     products_table (update_stock e (cart s) db)"
  by (simp_all add: checkout_after_items_def Let_def register_in_cash_flow_frame
      update_stock_frame split: option.splits)

lemma installmentData_props:
  "length (installmentData e sale tot n) = n"
  "k < n \<Longrightarrow> installmentData e sale tot n ! k =
     \<lparr>i_sale_id = s_id sale, i_installment_number = k + 1,
      i_due_date = today e + 30 * (int k + 1), i_amount = tot / of_nat n, i_status = Pending\<rparr>"
  by (simp_all add: installmentData_def Let_def)

section \<open>Checkout: installments\<close>

text \<open>
  Claim C2.  For a checkout with \<open>paymentType = installment\<close> over \<open>N = installments\<close>
  installments and cart total \<open>T\<close> that passes validation, whose sale, line-item and
  installment inserts the store accepts: exactly \<open>N\<close> rows are appended to the
  installments table, the \<open>k\<close>-th of them (counting from 0) with ordinal number \<open>k + 1\<close>,
  amount \<open>T / N\<close>, status pending, due date \<open>30 \<times> (k + 1)\<close> days after the day of the
  checkout, and the new sale's id.
\<close>

theorem checkout_creates_installments:
  assumes "selectedClient s \<noteq> []" and "cart s \<noteq> []" and "paymentType s = Installment"
    and "rejects e InsertSale = None" and "rejects e InsertSaleItems = None"
    and "rejects e InsertInstallments = None"
  shows "\<exists>new. installments_table (snd (snd (handleCheckout e s db))) = installments_table db @ new
           \<and> length new = installments s
           \<and> (\<forall>k < installments s.
                 i_installment_number (new ! k) = k + 1
               \<and> i_amount (new ! k) = total (cart s) / of_nat (installments s)
               \<and> i_status (new ! k) = Pending
               \<and> i_due_date (new ! k) = today e + 30 * (int k + 1)
               \<and> i_sale_id (new ! k) = new_id e)"
proof -
  let ?new = "installmentData e (new_sale e s) (total (cart s)) (installments s)"
  have "installments_table (snd (snd (handleCheckout e s db))) = installments_table db @ ?new"
    using assms
    by (simp add: handleCheckout_def Let_def checkout_installments_def checkout_after_items_frame)
  moreover have "length ?new = installments s"
    by (simp add: installmentData_props)
  moreover have "\<forall>k < installments s.
                 i_installment_number (?new ! k) = k + 1
               \<and> i_amount (?new ! k) = total (cart s) / of_nat (installments s)
               \<and> i_status (?new ! k) = Pending
               \<and> i_due_date (?new ! k) = today e + 30 * (int k + 1)
               \<and> i_sale_id (?new ! k) = new_id e"
    by (simp add: installmentData_props new_sale_def)
  ultimately show ?thesis by blast
qed

text \<open>
  The scenario of the specification: a cart of total 25.00 in three installments gives
  three rows of 25/3 each, due after 30, 60 and 90 days.
\<close>

theorem checkout_creates_installments_witness:
  "selectedClient installment_sale \<noteq> [] \<and> cart installment_sale \<noteq> [] \<and>
   paymentType installment_sale = Installment \<and> installments installment_sale = 3 \<and>
   total (cart installment_sale) = 25 \<and>
   (\<exists>new. installments_table (snd (snd (handleCheckout accepting_env installment_sale shop_store)))
            = installments_table shop_store @ new
         \<and> length new = 3
         \<and> (\<forall>k < 3.
               i_installment_number (new ! k) = k + 1
             \<and> i_amount (new ! k) = 25 / 3
             \<and> i_status (new ! k) = Pending
             \<and> i_due_date (new ! k) = 30 * (int k + 1)
             \<and> i_sale_id (new ! k) = ''0a1b2c3d-sale''))"
proof -
  have h: "selectedClient installment_sale \<noteq> []" "cart installment_sale \<noteq> []"
    "paymentType installment_sale = Installment"
    "rejects accepting_env InsertSale = None" "rejects accepting_env InsertSaleItems = None"
    "rejects accepting_env InsertInstallments = None"
    by (simp_all add: scenario_defs)
  have v: "installments installment_sale = 3" "total (cart installment_sale) = 25"
    "today accepting_env = 0" "new_id accepting_env = ''0a1b2c3d-sale''"
    by (simp_all add: scenario_defs)
  show ?thesis
    using h(1-3) v(1,2) checkout_creates_installments [OF h, of shop_store]
    by (simp add: v)
qed

section \<open>Checkout: validation\<close>

text \<open>
  Claim C3.  When no client is selected, or the cart is empty, or the payment is
  immediate cash with the money method and the amount tendered is less than the cart
  total, \<open>handleCheckout\<close> shows the corresponding validation alert and leaves the store
  (and the component's state) exactly as it was: no sale row and no other record is
  written.
\<close>

theorem checkout_validation_no_write:
  assumes "selectedClient s = [] \<or> cart s = [] \<or>
           (paymentType s = Cash \<and> paymentMethod s = ''money'' \<and> amountPaid s < total (cart s))"
  shows "snd (snd (handleCheckout e s db)) = db
       \<and> fst (snd (handleCheckout e s db)) = s
       \<and> fst (handleCheckout e s db) =
           (if selectedClient s = [] then ''Selecione um cliente''
            else if cart s = [] then ''Carrinho vazio''
            else ''Valor pago insuficiente'')"
  using assms by (auto simp add: handleCheckout_def)

text \<open>
  The scenario of the specification: 10.00 tendered against a total of 15.00 is rejected
  with the insufficient-payment alert and the store is unchanged.
\<close>

theorem checkout_validation_no_write_witness:
  "amountPaid (money_sale 10) < total (cart (money_sale 10)) \<and>
   handleCheckout accepting_env (money_sale 10) shop_store =
     (''Valor pago insuficiente'', money_sale 10, shop_store)"
proof -
  have h: "paymentType (money_sale 10) = Cash" "paymentMethod (money_sale 10) = ''money''"
    "amountPaid (money_sale 10) < total (cart (money_sale 10))"
    "selectedClient (money_sale 10) \<noteq> []" "cart (money_sale 10) \<noteq> []"
    by (simp_all add: scenario_defs)
  from h(1-3) have "selectedClient (money_sale 10) = [] \<or> cart (money_sale 10) = [] \<or>
      (paymentType (money_sale 10) = Cash \<and> paymentMethod (money_sale 10) = ''money'' \<and>
       amountPaid (money_sale 10) < total (cart (money_sale 10)))"
    by simp
  from checkout_validation_no_write [OF this, of accepting_env shop_store] h
  show ?thesis by (simp add: prod_eq_iff)
qed

section \<open>Checkout: stock\<close>

text \<open>
  The manual adjustment writes only non-negative quantities, and a purchase adds a
  non-negative quantity to a non-negative snapshot: both keep every stock at or above 0.
\<close>

lemma StockModal_never_negative:
  "snd (StockModal_handleSubmit e product ty qty db) = db \<or>
   (\<exists>v \<ge> 0. snd (StockModal_handleSubmit e product ty qty db) = set_stock (p_id product) v db)"
proof (cases "rejects e (UpdateStock (p_id product))")
  case (Some msg)
  then show ?thesis by (simp add: StockModal_handleSubmit_def Let_def)
next
  case None
  let ?n = "if ty = Add then p_stock_quantity product + qty else p_stock_quantity product - qty"
  show ?thesis
  proof (cases "?n < 0")
    case True
    then show ?thesis by (simp add: StockModal_handleSubmit_def Let_def)
  next
    case False
    with None have "snd (StockModal_handleSubmit e product ty qty db) =
                    set_stock (p_id product) ?n db"
      by (simp add: StockModal_handleSubmit_def Let_def)
    moreover from False have "0 \<le> ?n" by simp
    ultimately show ?thesis by blast
  qed
qed

lemma set_stock_nonnegative:
  assumes "\<forall>p \<in> set (products_table db). 0 \<le> p_stock_quantity p" and "0 \<le> v"
  shows "\<forall>p \<in> set (products_table (set_stock pid v db)). 0 \<le> p_stock_quantity p"
  using assms by (auto simp add: set_stock_def)

lemma StockModal_keeps_stock_nonnegative:
  assumes "\<forall>p \<in> set (products_table db). 0 \<le> p_stock_quantity p"
  shows "\<forall>p \<in> set (products_table (snd (StockModal_handleSubmit e product ty qty db))).
           0 \<le> p_stock_quantity p"
proof -
  from StockModal_never_negative [of e product ty qty db]
  show ?thesis
  proof
    assume "snd (StockModal_handleSubmit e product ty qty db) = db"
    with assms show ?thesis by simp
  next
    assume "\<exists>v \<ge> 0. snd (StockModal_handleSubmit e product ty qty db) =
              set_stock (p_id product) v db"
    then obtain v where "0 \<le> v"
      and "snd (StockModal_handleSubmit e product ty qty db) = set_stock (p_id product) v db"
      by blast
    with set_stock_nonnegative [OF assms, of v "p_id product"] show ?thesis by simp
  qed
qed

lemma Purchases_keeps_stock_nonnegative:
  assumes "\<forall>p \<in> set (products_table db). 0 \<le> p_stock_quantity p"
    and "\<forall>p \<in> set products. 0 \<le> p_stock_quantity p"
    and "0 \<le> np_quantity newPurchase"
  shows "\<forall>p \<in> set (products_table (snd (Purchases_handleSubmit e products newPurchase db))).
           0 \<le> p_stock_quantity p"
proof (cases "find (\<lambda>p. p_id p = np_product_id newPurchase) products")
  case None
  with assms(1) show ?thesis
    by (auto simp add: Purchases_handleSubmit_def Let_def split: option.splits)
next
  case (Some product)
  then have "product \<in> set products"
    by (auto simp add: find_Some_iff)
  with assms(2,3) have v: "0 \<le> p_stock_quantity product + np_quantity newPurchase"
    by auto
  let ?db1 = "db\<lparr>purchases_table := purchases_table db @
                            [\<lparr>pu_product_id = np_product_id newPurchase,
                              pu_quantity = np_quantity newPurchase,
                              pu_purchase_date = np_purchase_date newPurchase,
                              pu_file_url = np_file newPurchase\<rparr>]\<rparr>"
  have "\<forall>p \<in> set (products_table ?db1). 0 \<le> p_stock_quantity p"
    using assms(1) by simp
  from set_stock_nonnegative [OF this v, of "np_product_id newPurchase"] assms(1) Some
  show ?thesis
    by (auto simp add: Purchases_handleSubmit_def Let_def split: option.splits)
qed

text \<open>
  The checkout writes the difference between the stock it has just read and the cart
  quantity, whatever its sign.
\<close>

lemma filter_map_update:
  "filter (\<lambda>p. p_id p = pid)
     (map (\<lambda>p. if p_id p = pid then p\<lparr>p_stock_quantity := v\<rparr> else p) ps) =
   map (\<lambda>p. p\<lparr>p_stock_quantity := v\<rparr>) (filter (\<lambda>p. p_id p = pid) ps)"
  by (induction ps) auto

lemma decrement_stock_writes_difference:
  assumes "rejects e (SelectStock (p_id item)) = None"
    and "rejects e (UpdateStock (p_id item)) = None"
    and "filter (\<lambda>p. p_id p = p_id item) (products_table db) = [p]"
  shows "filter (\<lambda>p. p_id p = p_id item) (products_table (decrement_stock e db item)) =
         [p\<lparr>p_stock_quantity := p_stock_quantity p - quantity item\<rparr>]"
  using assms
  by (simp add: decrement_stock_def select_stock_def set_stock_def filter_map_update)

text \<open>
  Claim C1.  The stock quantity of a product is never made negative by an operation
  that changes stock.  The manual adjustment refuses a negative result, but the stock
  decrement of the checkout writes \<open>current - quantity\<close> without a check.  Here product A
  is listed with a stock of 2 and the cart holds 2 of it; a manual adjustment then removes
  1, so the store holds 1; the checkout of the cart succeeds and leaves a stock of \<open>-1\<close>.
\<close>

theorem checkout_makes_stock_negative:
  "map quantity (cart stale_cart_sale) = [2]
   \<and> snd (StockModal_handleSubmit accepting_env product_a Remove 1 shop_store) =
       shop_store\<lparr>products_table := [product_a\<lparr>p_stock_quantity := 1\<rparr>, product_b]\<rparr>
   \<and> fst (handleCheckout accepting_env stale_cart_sale
            (shop_store\<lparr>products_table := [product_a\<lparr>p_stock_quantity := 1\<rparr>, product_b]\<rparr>)) =
       ''Venda realizada com sucesso!''
   \<and> map p_stock_quantity
         (products_table (snd (snd (handleCheckout accepting_env stale_cart_sale
            (shop_store\<lparr>products_table := [product_a\<lparr>p_stock_quantity := 1\<rparr>, product_b]\<rparr>))))) =
       [- 1, 3]"
  by code_simp

section \<open>Checkout: the ledger entry\<close>












section \<open>Checkout: failures after the first write\<close>

text \<open>
  Claim C7 as stated says that a failing step is reported with the name of its stage.
  It is not: a rejected stock update is not reported at all (the checkout goes on and
  announces success), and rejections of two different inserts with the same store message
  give the same alert, the fixed prefix followed by the store's message.
\<close>

theorem checkout_failure_not_staged:
  "fst (handleCheckout (rejecting_env (UpdateStock ''prod-a'') ''Failed to fetch'')
          installment_sale shop_store) = ''Venda realizada com sucesso!''
   \<and> fst (handleCheckout (rejecting_env InsertSaleItems ''Failed to fetch'')
          installment_sale shop_store) = ''Erro ao processar venda: Failed to fetch''
   \<and> fst (handleCheckout (rejecting_env InsertInstallments ''Failed to fetch'')
          installment_sale shop_store) = ''Erro ao processar venda: Failed to fetch''"
  by code_simp

text \<open>
  Claim C7, amended.  In a checkout that passes validation and whose sale insert is
  accepted: when the insert of the line items, the insert of the installments or the
  receipt renderer fails with message \<open>msg\<close>, the alert is
  \<open>Erro ao processar venda: msg\<close> (no stage name), the component's state is kept, and
  the writes of the steps before the failing one stay in the store: the sale row; the
  sale row and the line items; the sale row, the line items, the installments and the
  stock decrements.  Nothing is undone, and no ledger row is written.
\<close>

theorem checkout_failure_keeps_writes:
  assumes "selectedClient s \<noteq> []" and "cart s \<noteq> []"
    and "\<not> (paymentType s = Cash \<and> paymentMethod s = ''money'' \<and> amountPaid s < total (cart s))"
    and "rejects e InsertSale = None"
  shows "(rejects e InsertSaleItems = Some msg \<longrightarrow>
            handleCheckout e s db =
              (error_alert msg, s, db\<lparr>sales_table := sales_table db @ [new_sale e s]\<rparr>))
       \<and> (rejects e InsertSaleItems = None \<and> paymentType s = Installment \<and>
          rejects e InsertInstallments = Some msg \<longrightarrow>
            handleCheckout e s db =
              (error_alert msg, s,
               db\<lparr>sales_table := sales_table db @ [new_sale e s],
                  sale_items_table := sale_items_table db @ saleItems (new_sale e s) (cart s)\<rparr>))
       \<and> (rejects e InsertSaleItems = None \<and>
          (paymentType s = Installment \<longrightarrow> rejects e InsertInstallments = None) \<and>
          receipt_error e = Some msg \<longrightarrow>
            fst (handleCheckout e s db) = error_alert msg
          \<and> fst (snd (handleCheckout e s db)) = s
          \<and> sales_table (snd (snd (handleCheckout e s db))) = sales_table db @ [new_sale e s]
          \<and> sale_items_table (snd (snd (handleCheckout e s db))) =
              sale_items_table db @ saleItems (new_sale e s) (cart s)
          \<and> installments_table (snd (snd (handleCheckout e s db))) =
              installments_table db @
                (if paymentType s = Installment
                 then installmentData e (new_sale e s) (total (cart s)) (installments s) else [])
          \<and> products_table (snd (snd (handleCheckout e s db))) =
              products_table (update_stock e (cart s) db)
          \<and> cash_transactions_table (snd (snd (handleCheckout e s db))) =
              cash_transactions_table db)"
proof (intro conjI impI)
  assume "rejects e InsertSaleItems = Some msg"
  with assms show "handleCheckout e s db =
              (error_alert msg, s, db\<lparr>sales_table := sales_table db @ [new_sale e s]\<rparr>)"
    by (auto simp add: handleCheckout_def Let_def)
next
  assume "rejects e InsertSaleItems = None \<and> paymentType s = Installment \<and>
          rejects e InsertInstallments = Some msg"
  with assms show "handleCheckout e s db =
              (error_alert msg, s,
               db\<lparr>sales_table := sales_table db @ [new_sale e s],
                  sale_items_table := sale_items_table db @ saleItems (new_sale e s) (cart s)\<rparr>)"
    by (auto simp add: handleCheckout_def Let_def checkout_installments_def)
next
  assume a: "rejects e InsertSaleItems = None \<and>
          (paymentType s = Installment \<longrightarrow> rejects e InsertInstallments = None) \<and>
          receipt_error e = Some msg"
  have eq: "handleCheckout e s db =
        (error_alert msg, s,
         update_stock e (cart s)
           (db\<lparr>sales_table := sales_table db @ [new_sale e s],
               sale_items_table := sale_items_table db @ saleItems (new_sale e s) (cart s),
               installments_table := installments_table db @
                (if paymentType s = Installment
                 then installmentData e (new_sale e s) (total (cart s)) (installments s)
                 else [])\<rparr>))"
    using assms a
    by (auto simp add: handleCheckout_def Let_def checkout_installments_def
        checkout_after_items_def)
  show "fst (handleCheckout e s db) = error_alert msg" by (simp add: eq)
  show "fst (snd (handleCheckout e s db)) = s" by (simp add: eq)
  show "sales_table (snd (snd (handleCheckout e s db))) = sales_table db @ [new_sale e s]"
    by (simp add: eq update_stock_frame)
  show "sale_items_table (snd (snd (handleCheckout e s db))) =
              sale_items_table db @ saleItems (new_sale e s) (cart s)"
    by (simp add: eq update_stock_frame)
  show "installments_table (snd (snd (handleCheckout e s db))) =
              installments_table db @
                (if paymentType s = Installment
                 then installmentData e (new_sale e s) (total (cart s)) (installments s) else [])"
    by (simp add: eq update_stock_frame)
  show "products_table (snd (snd (handleCheckout e s db))) =
              products_table (update_stock e (cart s) db)"
    unfolding eq by (auto intro: update_stock_products_cong)
  show "cash_transactions_table (snd (snd (handleCheckout e s db))) =
              cash_transactions_table db"
    by (simp add: eq update_stock_frame)
qed

text \<open>
  The three failures on the installment sale of total 25.00: the sale row written
  before the failure is in the store afterwards, and so is everything written between.
\<close>

theorem checkout_failure_keeps_writes_witness:
  "fst (handleCheckout (rejecting_env InsertSaleItems ''denied'') installment_sale shop_store) =
     ''Erro ao processar venda: denied''
   \<and> map s_total_amount (sales_table (snd (snd
        (handleCheckout (rejecting_env InsertSaleItems ''denied'') installment_sale shop_store)))) =
     [25]
   \<and> fst (handleCheckout (rejecting_env InsertInstallments ''denied'') installment_sale shop_store) =
     ''Erro ao processar venda: denied''
   \<and> map s_total_amount (sales_table (snd (snd
        (handleCheckout (rejecting_env InsertInstallments ''denied'') installment_sale shop_store)))) =
     [25]
   \<and> map si_quantity (sale_items_table (snd (snd
        (handleCheckout (rejecting_env InsertInstallments ''denied'') installment_sale shop_store)))) =
     [2, 1]
   \<and> fst (handleCheckout (accepting_env\<lparr>receipt_error := Some ''no renderer''\<rparr>)
            installment_sale shop_store) =
     ''Erro ao processar venda: no renderer''
   \<and> map p_stock_quantity (products_table (snd (snd
        (handleCheckout (accepting_env\<lparr>receipt_error := Some ''no renderer''\<rparr>)
            installment_sale shop_store)))) =
     [0, 2]
   \<and> length (installments_table (snd (snd
        (handleCheckout (accepting_env\<lparr>receipt_error := Some ''no renderer''\<rparr>)
            installment_sale shop_store)))) = 3"
proof -
  let ?e1 = "rejecting_env InsertSaleItems ''denied''"
  let ?e2 = "rejecting_env InsertInstallments ''denied''"
  let ?e3 = "accepting_env\<lparr>receipt_error := Some ''no renderer''\<rparr>"
  have v: "selectedClient installment_sale \<noteq> []" "cart installment_sale \<noteq> []"
    "\<not> (paymentType installment_sale = Cash \<and> paymentMethod installment_sale = ''money'' \<and>
        amountPaid installment_sale < total (cart installment_sale))"
    "paymentType installment_sale = Installment"
    by (simp_all add: scenario_defs)
  have e1: "rejects ?e1 InsertSale = None" "rejects ?e1 InsertSaleItems = Some ''denied''"
    by (simp_all add: scenario_defs)
  have e2: "rejects ?e2 InsertSale = None" "rejects ?e2 InsertSaleItems = None"
    "rejects ?e2 InsertInstallments = Some ''denied''"
    by (simp_all add: scenario_defs)
  have e3: "rejects ?e3 InsertSale = None" "rejects ?e3 InsertSaleItems = None"
    "rejects ?e3 InsertInstallments = None" "receipt_error ?e3 = Some ''no renderer''"
    by (simp_all add: scenario_defs)
  have t: "total (cart installment_sale) = 25" "installments installment_sale = 3"
    by (simp_all add: scenario_defs)
  have s1: "handleCheckout ?e1 installment_sale shop_store =
      (error_alert ''denied'', installment_sale,
       shop_store\<lparr>sales_table := sales_table shop_store @ [new_sale ?e1 installment_sale]\<rparr>)"
    using checkout_failure_keeps_writes [OF v(1-3) e1(1), of "''denied''" shop_store] e1(2)
    by blast
  have s2: "handleCheckout ?e2 installment_sale shop_store =
      (error_alert ''denied'', installment_sale,
       shop_store\<lparr>sales_table := sales_table shop_store @ [new_sale ?e2 installment_sale],
                  sale_items_table := sale_items_table shop_store
                     @ saleItems (new_sale ?e2 installment_sale) (cart installment_sale)\<rparr>)"
    using checkout_failure_keeps_writes [OF v(1-3) e2(1), of "''denied''" shop_store] e2(2,3) v(4)
    by blast
  have s3: "fst (handleCheckout ?e3 installment_sale shop_store) = error_alert ''no renderer''"
    "products_table (snd (snd (handleCheckout ?e3 installment_sale shop_store))) =
       products_table (update_stock ?e3 (cart installment_sale) shop_store)"
    "installments_table (snd (snd (handleCheckout ?e3 installment_sale shop_store))) =
       installments_table shop_store @
         (if paymentType installment_sale = Installment
          then installmentData ?e3 (new_sale ?e3 installment_sale)
                 (total (cart installment_sale)) (installments installment_sale) else [])"
    using checkout_failure_keeps_writes [OF v(1-3) e3(1), of "''no renderer''" shop_store]
      e3(2,3,4)
    by blast+
  have p: "map p_stock_quantity (products_table (update_stock ?e3 (cart installment_sale) shop_store))
           = [0, 2]"
    by code_simp
  show ?thesis
    by (simp add: s1 s2 s3 p t v(4) installmentData_props error_alert_def new_sale_def
        saleItems_def)
      (simp add: scenario_defs)
qed


section \<open>Cash register ledger\<close>

lemma calculateBalance_from:
  "foldl (\<lambda>acc curr. if t_type curr = Withdrawal then acc - t_amount curr
                     else acc + t_amount curr) a ts =
   a + (\<Sum>t\<leftarrow>ts. if t_type t = Withdrawal then - t_amount t else t_amount t)"
  by (induction ts arbitrary: a) auto

lemma sum_list_map_mset:
  "sum_list (map f ys) = sum_mset (image_mset (f :: 'a \<Rightarrow> 'b::comm_monoid_add) (mset ys))"
  by (induction ys) simp_all

lemma sum_list_map_sorted:
  "sum_list (map f (rev (sort_key k ys))) = sum_list (map (f :: 'a \<Rightarrow> 'b::comm_monoid_add) ys)"
  by (simp add: sum_list_map_mset)

text \<open>
  After a fetch the balance is the signed sum over the rows of the register in the
  store, whatever their order.
\<close>

lemma fetched_balance:
  "rejects e SelectTransactions = None \<Longrightarrow>
   calculateBalance (transactions (fetchTransactions e rid st db)) =
   (\<Sum>t\<leftarrow>filter (\<lambda>t. t_register_id t = rid) (cash_transactions_table db).
        if t_type t = Withdrawal then - t_amount t else t_amount t)"
  by (simp add: fetchTransactions_def calculateBalance_def calculateBalance_from
      sum_list_map_sorted)

text \<open>
  Claim C5.  \<open>calculateBalance\<close> is the sum over the transactions of the register of
  \<open>- amount\<close> for a withdrawal and \<open>+ amount\<close> for every other type, the opening
  entry included.  In particular: open a register with initial balance 100.00 on an
  empty store, record a sale of 50.00 and a withdrawal of 20.00, fetch the register's
  transactions; the balance is 130.00.
\<close>

theorem calculateBalance_signed_sum:
  "calculateBalance ts = (\<Sum>t\<leftarrow>ts. if t_type t = Withdrawal then - t_amount t else t_amount t)
   \<and> (let opened = handleOpenRegister (accepting_env\<lparr>new_id := ''reg-1''\<rparr>) 100
                      \<lparr>register = None, transactions = []\<rparr> empty_store;
           db = (snd (snd opened))\<lparr>cash_transactions_table :=
                   cash_transactions_table (snd (snd opened)) @ ledger_rows\<rparr>
       in map t_type (cash_transactions_table db) = [Opening, Sale, Withdrawal]
        \<and> map t_amount (cash_transactions_table db) = [100, 50, 20]
        \<and> calculateBalance
            (transactions (fetchTransactions accepting_env ''reg-1'' (fst (snd opened)) db)) = 130)"
proof
  show "calculateBalance ts =
        (\<Sum>t\<leftarrow>ts. if t_type t = Withdrawal then - t_amount t else t_amount t)"
    by (simp add: calculateBalance_def calculateBalance_from)
  show "(let opened = handleOpenRegister (accepting_env\<lparr>new_id := ''reg-1''\<rparr>) 100
                      \<lparr>register = None, transactions = []\<rparr> empty_store;
           db = (snd (snd opened))\<lparr>cash_transactions_table :=
                   cash_transactions_table (snd (snd opened)) @ ledger_rows\<rparr>
       in map t_type (cash_transactions_table db) = [Opening, Sale, Withdrawal]
        \<and> map t_amount (cash_transactions_table db) = [100, 50, 20]
        \<and> calculateBalance
            (transactions (fetchTransactions accepting_env ''reg-1'' (fst (snd opened)) db)) = 130)"
    by code_simp
qed

text \<open>
  Claim C6.  Closing a register (confirmed by the user, the store accepting both
  writes) appends one \<open>closing\<close> transaction whose amount is the balance
  \<open>calculateBalance()\<close> of the transactions on display, and every row of that register
  in the store becomes closed with that same value as its final balance; no register
  row is added or removed.
\<close>

theorem close_register_balance:
  assumes "register st = Some reg"
    and "rejects e UpdateRegister = None" and "rejects e InsertCashTransaction = None"
  shows "fst (handleCloseRegister e True st db) = None
       \<and> cash_transactions_table (snd (snd (handleCloseRegister e True st db))) =
           cash_transactions_table db @
             [closing_transaction e (r_id reg) (calculateBalance (transactions st))]
       \<and> t_type (closing_transaction e (r_id reg) (calculateBalance (transactions st))) = Closing
       \<and> t_amount (closing_transaction e (r_id reg) (calculateBalance (transactions st))) =
           calculateBalance (transactions st)
       \<and> map r_id (cash_registers_table (snd (snd (handleCloseRegister e True st db)))) =
           map r_id (cash_registers_table db)
       \<and> (\<forall>r \<in> set (cash_registers_table (snd (snd (handleCloseRegister e True st db)))).
             r_id r = r_id reg \<longrightarrow>
               r_status r = Register_closed \<and>
               r_final_balance r = Some (calculateBalance (transactions st)))
       \<and> register (fst (snd (handleCloseRegister e True st db))) = None"
  using assms
  by (auto simp add: handleCloseRegister_def Let_def closing_transaction_def
      close_register_row_def comp_def)

text \<open>
  Register \<open>reg-1\<close> with an opening of 100.00, a sale of 50.00 and a withdrawal of 20.00
  on display is closed with 130.00 as the closing amount and as the final balance.
\<close>

theorem close_register_balance_witness:
  "register open_ledger = Some register_1 \<and>
   calculateBalance (transactions open_ledger) = 130 \<and>
   map (\<lambda>t. (t_type t, t_amount t))
     (cash_transactions_table (snd (snd
        (handleCloseRegister accepting_env True open_ledger shop_store)))) = [(Closing, 130)] \<and>
   map (\<lambda>r. (r_id r, r_status r, r_final_balance r))
     (cash_registers_table (snd (snd
        (handleCloseRegister accepting_env True open_ledger shop_store)))) =
     [(''reg-1'', Register_closed, Some 130)]"
proof -
  have h: "register open_ledger = Some register_1"
    "rejects accepting_env UpdateRegister = None"
    "rejects accepting_env InsertCashTransaction = None"
    by (simp_all add: open_ledger_def scenario_defs)
  have b: "calculateBalance (transactions open_ledger) = 130"
    by code_simp
  have regs: "map (\<lambda>r. (r_id r, r_status r, r_final_balance r))
     (cash_registers_table (snd (snd
        (handleCloseRegister accepting_env True open_ledger shop_store)))) =
     [(''reg-1'', Register_closed, Some 130)]"
    by code_simp
  from close_register_balance [OF h, of shop_store]
  have "cash_transactions_table (snd (snd
          (handleCloseRegister accepting_env True open_ledger shop_store))) =
        cash_transactions_table shop_store @
          [closing_transaction accepting_env (r_id register_1)
             (calculateBalance (transactions open_ledger))]"
    by blast
  then have "map (\<lambda>t. (t_type t, t_amount t))
     (cash_transactions_table (snd (snd
        (handleCloseRegister accepting_env True open_ledger shop_store)))) = [(Closing, 130)]"
    by (simp add: b closing_transaction_def shop_store_def)
  with h(1) b regs show ?thesis by simp
qed

section \<open>Cart builder\<close>

text \<open>
  Claim C8.  \<open>updateQuantity\<close> keeps every cart line in place (none is removed), and
  for each line: the line is either unchanged or its new quantity lies in the closed
  range \<open>[1, stock_quantity]\<close>; when \<open>quantity + delta\<close> falls outside that range the
  line is unchanged; and a quantity inside the range stays inside it.
\<close>

theorem updateQuantity_in_range:
  "length (updateQuantity pid d c) = length c \<and>
   (\<forall>k < length c.
      (updateQuantity pid d c ! k = c ! k \<or>
         (1 \<le> quantity (updateQuantity pid d c ! k) \<and>
          quantity (updateQuantity pid d c ! k) \<le> p_stock_quantity (updateQuantity pid d c ! k))) \<and>
      (quantity (c ! k) + d < 1 \<or> quantity (c ! k) + d > p_stock_quantity (c ! k)
         \<longrightarrow> updateQuantity pid d c ! k = c ! k) \<and>
      (1 \<le> quantity (c ! k) \<and> quantity (c ! k) \<le> p_stock_quantity (c ! k)
         \<longrightarrow> 1 \<le> quantity (updateQuantity pid d c ! k) \<and>
             quantity (updateQuantity pid d c ! k) \<le> p_stock_quantity (updateQuantity pid d c ! k)))"
proof -
  have len: "length (updateQuantity pid d c) = length c"
    by (simp add: updateQuantity_def)
  have "\<And>k. k < length c \<Longrightarrow> updateQuantity pid d c ! k = updateItem pid d (c ! k)"
    by (simp add: updateQuantity_def)
  moreover have "\<And>item. (updateItem pid d item = item \<or>
         (1 \<le> quantity (updateItem pid d item) \<and>
          quantity (updateItem pid d item) \<le> p_stock_quantity (updateItem pid d item))) \<and>
      (quantity item + d < 1 \<or> quantity item + d > p_stock_quantity item
         \<longrightarrow> updateItem pid d item = item) \<and>
      (1 \<le> quantity item \<and> quantity item \<le> p_stock_quantity item
         \<longrightarrow> 1 \<le> quantity (updateItem pid d item) \<and>
             quantity (updateItem pid d item) \<le> p_stock_quantity (updateItem pid d item))"
    by (simp add: updateItem_def Let_def)
  ultimately show ?thesis using len by simp
qed

text \<open>
  A line of 2 \<times> A with a stock of 2: \<open>+1\<close> and \<open>-2\<close> leave it at 2, \<open>-1\<close> gives 1.
\<close>

theorem updateQuantity_in_range_witness:
  "map quantity (updateQuantity ''prod-a'' 1 [with_quantity product_a 2]) = [2] \<and>
   map quantity (updateQuantity ''prod-a'' (- 2) [with_quantity product_a 2]) = [2] \<and>
   map quantity (updateQuantity ''prod-a'' (- 1) [with_quantity product_a 2]) = [1]"
proof -
  let ?c = "[with_quantity product_a 2]"
  have v: "length ?c = 1" "quantity (?c ! 0) = 2" "p_stock_quantity (?c ! 0) = 2"
    by (simp_all add: scenario_defs)
  have up: "updateQuantity ''prod-a'' 1 ?c ! 0 = ?c ! 0"
    using updateQuantity_in_range [of "''prod-a''" 1 ?c] v by simp
  have down: "updateQuantity ''prod-a'' (- 2) ?c ! 0 = ?c ! 0"
    using updateQuantity_in_range [of "''prod-a''" "- 2" ?c] v by simp
  have l: "length (updateQuantity ''prod-a'' 1 ?c) = 1"
    "length (updateQuantity ''prod-a'' (- 2) ?c) = 1"
    using updateQuantity_in_range [of "''prod-a''" 1 ?c]
      updateQuantity_in_range [of "''prod-a''" "- 2" ?c] by simp_all
  have a: "map quantity (updateQuantity ''prod-a'' 1 ?c) = [2]"
    using l(1) up v(2) by (cases "updateQuantity ''prod-a'' 1 ?c") simp_all
  have b: "map quantity (updateQuantity ''prod-a'' (- 2) ?c) = [2]"
    using l(2) down v(2) by (cases "updateQuantity ''prod-a'' (- 2) ?c") simp_all
  have c: "map quantity (updateQuantity ''prod-a'' (- 1) ?c) = [1]"
    by code_simp
  from a b c show ?thesis by simp
qed

text \<open>
  Claim C9.  When the product is not in the cart, \<open>addToCart\<close> appends a line with
  quantity 1 and looks at no stock, so a product with a stock of 0 gets a line of
  quantity 1.  The stock cap is on the other path only: when the product is in the cart,
  the cart is unchanged if the line's quantity has reached the product's stock, and the
  quantity is incremented otherwise.
\<close>

theorem addToCart_no_stock_check:
  "(find (\<lambda>item. p_id item = p_id product) current = None \<longrightarrow>
      addToCart product current = current @ [with_quantity product 1] \<and>
      quantity (last (addToCart product current)) = 1 \<and>
      p_stock_quantity (last (addToCart product current)) = p_stock_quantity product) \<and>
   (\<forall>existing. find (\<lambda>item. p_id item = p_id product) current = Some existing \<longrightarrow>
      (quantity existing \<ge> p_stock_quantity product \<longrightarrow> addToCart product current = current) \<and>
      (quantity existing < p_stock_quantity product \<longrightarrow>
         addToCart product current =
           map (\<lambda>item. if p_id item = p_id product
                       then item\<lparr>quantity := quantity item + 1\<rparr> else item) current))"
  by (simp add: addToCart_def with_quantity_def)

text \<open>
  Product A with a stock of 0 is added to the empty cart with quantity 1; a second click
  leaves the line at 1, the cap of the increment path.
\<close>

theorem addToCart_no_stock_check_witness:
  "p_stock_quantity (product_a\<lparr>p_stock_quantity := 0\<rparr>) = 0 \<and>
   addToCart (product_a\<lparr>p_stock_quantity := 0\<rparr>) [] =
     [with_quantity (product_a\<lparr>p_stock_quantity := 0\<rparr>) 1] \<and>
   quantity (last (addToCart (product_a\<lparr>p_stock_quantity := 0\<rparr>) [])) = 1 \<and>
   addToCart (product_a\<lparr>p_stock_quantity := 0\<rparr>)
     [with_quantity (product_a\<lparr>p_stock_quantity := 0\<rparr>) 1] =
     [with_quantity (product_a\<lparr>p_stock_quantity := 0\<rparr>) 1]"
proof -
  let ?p = "product_a\<lparr>p_stock_quantity := 0\<rparr>"
  have n: "find (\<lambda>item. p_id item = p_id ?p) [] = None"
    by simp
  have f: "find (\<lambda>item. p_id item = p_id ?p) [with_quantity ?p 1] = Some (with_quantity ?p 1)"
    by (simp add: with_quantity_def)
  have q: "quantity (with_quantity ?p 1) \<ge> p_stock_quantity ?p"
    by (simp add: with_quantity_def)
  note a0 = addToCart_no_stock_check [of ?p "[]", THEN conjunct1, THEN mp, OF n]
  have a1: "addToCart ?p [] = [with_quantity ?p 1]"
    using a0 [THEN conjunct1] by simp
  have a2: "quantity (last (addToCart ?p [])) = 1"
    using a0 [THEN conjunct2, THEN conjunct1] .
  have b: "addToCart ?p [with_quantity ?p 1] = [with_quantity ?p 1]"
    using addToCart_no_stock_check [of ?p "[with_quantity ?p 1]", THEN conjunct2, THEN spec,
        THEN mp, OF f, THEN conjunct1, THEN mp, OF q] .
  have z: "p_stock_quantity ?p = 0"
    by simp
  from z a1 a2 b show ?thesis by (intro conjI)
qed

section \<open>Installment tracker\<close>

lemma map_of_add_to_groups:
  "map_of (add_to_groups k i gs) k' =
     (if k' = k
      then Some (add_to_group i (case map_of gs k of
                                   None \<Rightarrow> empty_group k (c_name (inst_client i))
                                 | Some g \<Rightarrow> g))
      else map_of gs k')"
  by (induction k i gs rule: add_to_groups.induct) auto

lemma keys_add_to_groups:
  "map fst (add_to_groups k i gs) = (if k \<in> set (map fst gs) then map fst gs else map fst gs @ [k])"
  by (induction k i gs rule: add_to_groups.induct) auto

lemma distinct_add_to_groups:
  "distinct (map fst gs) \<Longrightarrow> distinct (map fst (add_to_groups k i gs))"
  by (simp add: keys_add_to_groups)

lemma expected_group_empty: "expected_group [] k = empty_group k k"
  by (simp add: expected_group_def empty_group_def)

lemma expected_group_snoc_same:
  "c_name (inst_client x) = k \<Longrightarrow>
   expected_group (ms @ [x]) k = add_to_group x (expected_group ms k)"
  by (cases "inst_status x") (simp_all add: expected_group_def add_to_group_def Let_def)

lemma expected_group_snoc_other:
  "c_name (inst_client x) \<noteq> k \<Longrightarrow> expected_group (ms @ [x]) k = expected_group ms k"
  by (simp add: expected_group_def)

lemma expected_group_absent:
  assumes "k \<notin> (\<lambda>i. c_name (inst_client i)) ` set ms"
  shows "expected_group ms k = empty_group k k"
proof -
  from assms have "\<And>P. filter (\<lambda>i. c_name (inst_client i) = k \<and> P i) ms = []"
    by (auto simp add: filter_empty_conv)
  moreover from assms have "filter (\<lambda>i. c_name (inst_client i) = k) ms = []"
    by (auto simp add: filter_empty_conv)
  ultimately show ?thesis
    by (simp add: expected_group_def empty_group_def)
qed

lemma group_step_skip:
  "\<not> matchesFilter e t sf vm x \<Longrightarrow> group_step e t sf vm gs x = gs"
  by (simp add: group_step_def)

lemma group_step_add:
  "matchesFilter e t sf vm x \<Longrightarrow>
   group_step e t sf vm gs x = add_to_groups (c_name (inst_client x)) x gs"
  by (simp add: group_step_def)

lemma groups_invariant:
  "distinct (map fst (foldl (group_step e t sf vm) [] insts)) \<and>
   (\<forall>k. map_of (foldl (group_step e t sf vm) [] insts) k =
        (if k \<in> (\<lambda>i. c_name (inst_client i)) ` set (filter (matchesFilter e t sf vm) insts)
         then Some (expected_group (filter (matchesFilter e t sf vm) insts) k) else None))"
proof (induction insts rule: rev_induct)
  case Nil
  show ?case by simp
next
  case (snoc x xs)
  let ?gs = "foldl (group_step e t sf vm) [] xs"
  let ?ms = "filter (matchesFilter e t sf vm) xs"
  from snoc have d: "distinct (map fst ?gs)"
    and m: "\<And>k. map_of ?gs k =
        (if k \<in> (\<lambda>i. c_name (inst_client i)) ` set ?ms
         then Some (expected_group ?ms k) else None)"
    by simp_all
  show ?case
  proof (cases "matchesFilter e t sf vm x")
    case False
    with d m show ?thesis by (simp add: group_step_skip)
  next
    case True
    let ?k = "c_name (inst_client x)"
    have step: "foldl (group_step e t sf vm) [] (xs @ [x]) = add_to_groups ?k x ?gs"
      using True by (simp add: group_step_add)
    have f: "filter (matchesFilter e t sf vm) (xs @ [x]) = ?ms @ [x]"
      using True by simp
    have new: "add_to_group x (case map_of ?gs ?k of None \<Rightarrow> empty_group ?k ?k | Some g \<Rightarrow> g)
               = expected_group (?ms @ [x]) ?k"
    proof (cases "?k \<in> (\<lambda>i. c_name (inst_client i)) ` set ?ms")
      case True
      then have "map_of ?gs ?k = Some (expected_group ?ms ?k)" by (simp add: m)
      then show ?thesis by (simp add: expected_group_snoc_same)
    next
      case False
      then have "map_of ?gs ?k = None" by (simp add: m)
      moreover from False have "expected_group ?ms ?k = empty_group ?k ?k"
        by (rule expected_group_absent)
      ultimately show ?thesis by (simp add: expected_group_snoc_same)
    qed
    have "distinct (map fst (add_to_groups ?k x ?gs))"
      using d by (rule distinct_add_to_groups)
    moreover have "\<forall>k. map_of (add_to_groups ?k x ?gs) k =
        (if k \<in> (\<lambda>i. c_name (inst_client i)) ` set (?ms @ [x])
         then Some (expected_group (?ms @ [x]) k) else None)"
    proof
      fix k
      show "map_of (add_to_groups ?k x ?gs) k =
        (if k \<in> (\<lambda>i. c_name (inst_client i)) ` set (?ms @ [x])
         then Some (expected_group (?ms @ [x]) k) else None)"
      proof (cases "k = ?k")
        case True
        then show ?thesis by (simp add: map_of_add_to_groups new)
      next
        case False
        then have "expected_group (?ms @ [x]) k = expected_group ?ms k"
          by (simp add: expected_group_snoc_other)
        with False show ?thesis by (auto simp add: map_of_add_to_groups m)
      qed
    qed
    ultimately show ?thesis unfolding step f by blast
  qed
qed

lemma set_insert_sorted: "set (insert_sorted cmp x ys) = insert x (set ys)"
  by (induction ys) auto

lemma set_sort_with: "set (sort_with cmp xs) = set xs"
  unfolding sort_with_def by (induction xs) (simp_all add: set_insert_sorted)

lemma set_groupInstallments:
  "g \<in> set (groupInstallments e cmp insts t sf vm) \<longleftrightarrow>
   (\<exists>i \<in> set insts. matchesFilter e t sf vm i \<and>
      g = expected_group (filter (matchesFilter e t sf vm) insts) (c_name (inst_client i)))"
proof -
  let ?gs = "foldl (group_step e t sf vm) [] insts"
  let ?ms = "filter (matchesFilter e t sf vm) insts"
  have d: "distinct (map fst ?gs)"
    and m: "\<And>k. map_of ?gs k =
        (if k \<in> (\<lambda>i. c_name (inst_client i)) ` set ?ms
         then Some (expected_group ?ms k) else None)"
    using groups_invariant [of e t sf vm insts] by simp_all
  have "g \<in> set (groupInstallments e cmp insts t sf vm) \<longleftrightarrow> g \<in> snd ` set ?gs"
    by (simp add: groupInstallments_def Let_def set_sort_with)
  also have "\<dots> \<longleftrightarrow> (\<exists>k. (k, g) \<in> set ?gs)"
    by force
  also have "\<dots> \<longleftrightarrow> (\<exists>k. map_of ?gs k = Some g)"
    by (simp add: map_of_eq_Some_iff [OF d])
  also have "\<dots> \<longleftrightarrow> (\<exists>k. k \<in> (\<lambda>i. c_name (inst_client i)) ` set ?ms \<and> g = expected_group ?ms k)"
    by (auto simp add: m)
  also have "\<dots> \<longleftrightarrow> (\<exists>i \<in> set insts. matchesFilter e t sf vm i \<and>
      g = expected_group ?ms (c_name (inst_client i)))"
    by auto
  finally show ?thesis .
qed

text \<open>
  Claim C10.  \<open>groupInstallments\<close> keys its groups by the client's name, not by the
  client's identifier.  Any two installments that pass the filter and whose clients have
  the same name, whatever the clients' identifiers, are in one and the same group: the
  only group with that name, whose installments are all the filtered installments of
  clients with that name and whose pending and overdue totals are the sums over all of
  them.
\<close>

theorem groupInstallments_by_name:
  assumes "i1 \<in> set insts" and "i2 \<in> set insts"
    and "matchesFilter e t sf vm i1" and "matchesFilter e t sf vm i2"
    and "c_name (inst_client i1) = c_name (inst_client i2)"
  shows "\<exists>g \<in> set (groupInstallments e cmp insts t sf vm).
           g_clientName g = c_name (inst_client i1)
         \<and> i1 \<in> set (g_installments g) \<and> i2 \<in> set (g_installments g)
         \<and> g_installments g =
             filter (\<lambda>i. matchesFilter e t sf vm i \<and>
                         c_name (inst_client i) = c_name (inst_client i1)) insts
         \<and> g_totalPending g =
             (\<Sum>i\<leftarrow>filter (\<lambda>i. matchesFilter e t sf vm i \<and>
                              c_name (inst_client i) = c_name (inst_client i1) \<and>
                              inst_status i = Pending) insts. inst_amount i)
         \<and> g_totalOverdue g =
             (\<Sum>i\<leftarrow>filter (\<lambda>i. matchesFilter e t sf vm i \<and>
                              c_name (inst_client i) = c_name (inst_client i1) \<and>
                              inst_status i = Overdue) insts. inst_amount i)
         \<and> (\<forall>g' \<in> set (groupInstallments e cmp insts t sf vm).
                g_clientName g' = c_name (inst_client i1) \<longrightarrow> g' = g)"
proof -
  let ?ms = "filter (matchesFilter e t sf vm) insts"
  let ?k = "c_name (inst_client i1)"
  let ?g = "expected_group ?ms ?k"
  have mem: "?g \<in> set (groupInstallments e cmp insts t sf vm)"
    using assms(1,3) by (auto simp add: set_groupInstallments)
  have uniq: "\<forall>g' \<in> set (groupInstallments e cmp insts t sf vm).
                g_clientName g' = ?k \<longrightarrow> g' = ?g"
    by (auto simp add: set_groupInstallments expected_group_def)
  have "g_clientName ?g = ?k"
    by (simp add: expected_group_def)
  moreover have "i1 \<in> set (g_installments ?g)" "i2 \<in> set (g_installments ?g)"
    using assms by (simp_all add: expected_group_def)
  moreover have "g_installments ?g =
             filter (\<lambda>i. matchesFilter e t sf vm i \<and> c_name (inst_client i) = ?k) insts"
    by (simp add: expected_group_def)
  moreover have "g_totalPending ?g =
             (\<Sum>i\<leftarrow>filter (\<lambda>i. matchesFilter e t sf vm i \<and>
                              c_name (inst_client i) = ?k \<and>
                              inst_status i = Pending) insts. inst_amount i)"
    by (simp add: expected_group_def)
  moreover have "g_totalOverdue ?g =
             (\<Sum>i\<leftarrow>filter (\<lambda>i. matchesFilter e t sf vm i \<and>
                              c_name (inst_client i) = ?k \<and>
                              inst_status i = Overdue) insts. inst_amount i)"
    by (simp add: expected_group_def)
  ultimately show ?thesis using mem uniq by blast
qed

text \<open>
  Two clients with different identifiers, both named Ana: one group, with a pending total
  of 10.00 + 20.00 and the overdue 5.00 of the second client.
\<close>

theorem groupInstallments_by_name_witness:
  "c_id (inst_client ana_first) \<noteq> c_id (inst_client ana_second) \<and>
   c_name (inst_client ana_first) = c_name (inst_client ana_second) \<and>
   groupInstallments accepting_env compare_strings [ana_first, ana_second, ana_second_late]
       [] All_statuses View_all =
     [\<lparr>g_clientId = ''Ana'', g_clientName = ''Ana'',
       g_installments = [ana_first, ana_second, ana_second_late],
       g_totalPending = 30, g_totalOverdue = 5\<rparr>] \<and>
   (\<exists>g \<in> set (groupInstallments accepting_env compare_strings
                  [ana_first, ana_second, ana_second_late] [] All_statuses View_all).
       g_clientName g = ''Ana'' \<and>
       ana_first \<in> set (g_installments g) \<and> ana_second \<in> set (g_installments g) \<and>
       g_totalPending g = 30 \<and> g_totalOverdue g = 5)"
proof -
  let ?insts = "[ana_first, ana_second, ana_second_late]"
  let ?m = "matchesFilter accepting_env [] All_statuses View_all"
  have h: "ana_first \<in> set ?insts" "ana_second \<in> set ?insts"
    by simp_all
  have m: "?m ana_first" "?m ana_second"
    by code_simp+
  have n: "c_name (inst_client ana_first) = c_name (inst_client ana_second)"
    "c_name (inst_client ana_first) = ''Ana''"
    by (simp_all add: ana_first_def ana_second_def)
  have d: "c_id (inst_client ana_first) \<noteq> c_id (inst_client ana_second)"
    by (simp add: ana_first_def ana_second_def)
  have p: "(\<Sum>i\<leftarrow>filter (\<lambda>i. ?m i \<and> c_name (inst_client i) = c_name (inst_client ana_first) \<and>
                              inst_status i = Pending) ?insts. inst_amount i) = 30"
    by code_simp
  have q: "(\<Sum>i\<leftarrow>filter (\<lambda>i. ?m i \<and> c_name (inst_client i) = c_name (inst_client ana_first) \<and>
                              inst_status i = Overdue) ?insts. inst_amount i) = 5"
    by code_simp
  have r: "groupInstallments accepting_env compare_strings ?insts [] All_statuses View_all =
     [\<lparr>g_clientId = ''Ana'', g_clientName = ''Ana'',
       g_installments = ?insts, g_totalPending = 30, g_totalOverdue = 5\<rparr>]"
    by code_simp
  from groupInstallments_by_name [OF h m n(1), of compare_strings]
  obtain g where g: "g \<in> set (groupInstallments accepting_env compare_strings ?insts
                        [] All_statuses View_all)"
    "g_clientName g = c_name (inst_client ana_first)"
    "ana_first \<in> set (g_installments g)" "ana_second \<in> set (g_installments g)"
    "g_totalPending g =
             (\<Sum>i\<leftarrow>filter (\<lambda>i. ?m i \<and> c_name (inst_client i) = c_name (inst_client ana_first) \<and>
                              inst_status i = Pending) ?insts. inst_amount i)"
    "g_totalOverdue g =
             (\<Sum>i\<leftarrow>filter (\<lambda>i. ?m i \<and> c_name (inst_client i) = c_name (inst_client ana_first) \<and>
                              inst_status i = Overdue) ?insts. inst_amount i)"
    by blast
  from g(2) n(2) have gn: "g_clientName g = ''Ana''" by simp
  from g(5) p have gp: "g_totalPending g = 30" by simp
  from g(6) q have gq: "g_totalOverdue g = 5" by simp
  from g(1) gn g(3,4) gp gq
  have ex: "\<exists>g \<in> set (groupInstallments accepting_env compare_strings ?insts
                  [] All_statuses View_all).
       g_clientName g = ''Ana'' \<and>
       ana_first \<in> set (g_installments g) \<and> ana_second \<in> set (g_installments g) \<and>
       g_totalPending g = 30 \<and> g_totalOverdue g = 5"
    by blast
  from d n(1) r ex show ?thesis by (intro conjI)
qed

end
